theory Spec2Isabelle
  imports Complex_Main
begin

text \<open>
  A model of the simulation core of MicroCosmos-3D: the Euler integrator
  \<^verbatim>\<open>updatePopulations\<close> (the same text in both source files), the particle ensemble and
  the per-particle frame update of \<^verbatim>\<open>Colony\<close>, and the sampling interval, the history
  window and \<^verbatim>\<open>applyScenario\<close> of \<^verbatim>\<open>Home\<close> (second source file). Rendering, layout
  and the chart are not modelled.
\<close>

section \<open>JavaScript numbers\<close>

text \<open>
  A JavaScript \<^verbatim>\<open>number\<close> is an IEEE-754 double. The model keeps its special values
  and idealises the finite ones: \<open>Fin x\<close> is the finite number \<open>x\<close>, and arithmetic on
  finite numbers is exact arithmetic on the reals. Rounding, overflow to an infinity and
  the sign of zero are not modelled. \<open>NaN\<close> is also what \<^verbatim>\<open>undefined\<close> becomes in
  arithmetic, which is how a read past the end of an array enters a computation.
\<close>

datatype number = NaN | NInf | Fin real | PInf



text \<open>\<^verbatim>\<open>a + b\<close>\<close>

fun jadd :: "number \<Rightarrow> number \<Rightarrow> number" where
  "jadd NaN _ = NaN"
| "jadd _ NaN = NaN"
| "jadd (Fin a) (Fin b) = Fin (a + b)"
| "jadd PInf NInf = NaN"
| "jadd NInf PInf = NaN"
| "jadd PInf _ = PInf"
| "jadd _ PInf = PInf"
| "jadd NInf _ = NInf"
| "jadd _ NInf = NInf"

text \<open>\<^verbatim>\<open>a * b\<close>: an infinity times zero is \<open>NaN\<close>, otherwise the signs multiply.\<close>

fun jsign :: "number \<Rightarrow> int" where
  "jsign NaN = 0"
| "jsign NInf = - 1"
| "jsign PInf = 1"
| "jsign (Fin a) = (if a < 0 then - 1 else if a = 0 then 0 else 1)"

fun jmul :: "number \<Rightarrow> number \<Rightarrow> number" where
  "jmul NaN _ = NaN"
| "jmul _ NaN = NaN"
| "jmul (Fin a) (Fin b) = Fin (a * b)"
| "jmul a b =
     (if jsign a * jsign b = 0 then NaN
      else if jsign a * jsign b < 0 then NInf else PInf)"

text \<open>\<^verbatim>\<open>a - b\<close> is \<^verbatim>\<open>a + (-b)\<close>.\<close>

fun jneg :: "number \<Rightarrow> number" where
  "jneg NaN = NaN"
| "jneg NInf = PInf"
| "jneg PInf = NInf"
| "jneg (Fin a) = Fin (- a)"

definition jsub :: "number \<Rightarrow> number \<Rightarrow> number" where
  "jsub a b = jadd a (jneg b)"

text \<open>\<^verbatim>\<open>a <= b\<close>: every comparison with \<open>NaN\<close> is false.\<close>

fun jle :: "number \<Rightarrow> number \<Rightarrow> bool" where
  "jle NaN _ = False"
| "jle _ NaN = False"
| "jle (Fin a) (Fin b) = (a \<le> b)"
| "jle NInf _ = True"
| "jle _ PInf = True"
| "jle _ _ = False"

text \<open>\<^verbatim>\<open>Math.max(a, b)\<close>: \<open>NaN\<close> if either argument is \<open>NaN\<close>.\<close>

fun Math_max :: "number \<Rightarrow> number \<Rightarrow> number" where
  "Math_max NaN _ = NaN"
| "Math_max _ NaN = NaN"
| "Math_max a b = (if jle a b then b else a)"

text \<open>
  \<^verbatim>\<open>Math.sin\<close>, \<^verbatim>\<open>Math.cos\<close> and \<^verbatim>\<open>Math.acos\<close>: \<open>NaN\<close> at an infinity, and
  \<^verbatim>\<open>Math.acos\<close> also outside \<open>[-1, 1]\<close>.
\<close>

fun Math_sin :: "number \<Rightarrow> number" where
  "Math_sin (Fin a) = Fin (sin a)"
| "Math_sin _ = NaN"

fun Math_cos :: "number \<Rightarrow> number" where
  "Math_cos (Fin a) = Fin (cos a)"
| "Math_cos _ = NaN"

fun Math_acos :: "number \<Rightarrow> number" where
  "Math_acos (Fin a) = (if - 1 \<le> a \<and> a \<le> 1 then Fin (arccos a) else NaN)"
| "Math_acos _ = NaN"

section \<open>Arrays\<close>

text \<open>
  \<^verbatim>\<open>xs[i]\<close> used as a number: past the end the read is \<^verbatim>\<open>undefined\<close>, which
  arithmetic turns into \<open>NaN\<close>.
\<close>

definition num_at :: "number list \<Rightarrow> nat \<Rightarrow> number" where
  "num_at xs i = (if i < length xs then xs ! i else NaN)"

text \<open>
  \<^verbatim>\<open>xs[i] = v\<close>: a write at the end or beyond grows the array. (The holes a write beyond
  the end leaves read as \<^verbatim>\<open>undefined\<close>; they are written \<open>NaN\<close> here. The loops below
  write at indices 0, 1, 2 in turn, so they never leave a hole.)
\<close>

definition array_set :: "number list \<Rightarrow> nat \<Rightarrow> number \<Rightarrow> number list" where
  "array_set xs i v =
     (if i < length xs then xs[i := v]
      else xs @ replicate (i - length xs) NaN @ [v])"

section \<open>The GLV core: \<^verbatim>\<open>updatePopulations\<close>\<close>

text \<open>
  \<^verbatim>\<open>type GLVParams = { r: number[]; A: number[][]; dt: number }\<close>
\<close>

record GLVParams =
  r :: "number list"
  A :: "number list list"
  dt :: number

text \<open>
  The only way the function can throw: \<^verbatim>\<open>A[i][j]\<close> when \<^verbatim>\<open>A\<close> has no row \<open>i\<close>
  reads a property of \<^verbatim>\<open>undefined\<close>.
\<close>

datatype error = TypeError

text \<open>
  The inner loop
  \<^verbatim>\<open>for (let j = 0; j < 3; j++) { interaction += A[i][j] * pops[j]; }\<close>
\<close>

function interaction_loop ::
  "number list list \<Rightarrow> nat \<Rightarrow> number list \<Rightarrow> nat \<Rightarrow> number \<Rightarrow> error + number" where
  "interaction_loop Am i pops j interaction =
     (if j < 3 then
        (if i < length Am then
           interaction_loop Am i pops (j + 1)
             (jadd interaction (jmul (num_at (Am ! i) j) (num_at pops j)))
         else Inl TypeError)
      else Inr interaction)"
  by pat_completeness auto
termination
  by (relation "measure (\<lambda>(Am, i, pops, j, interaction). 3 - j)") auto

declare interaction_loop.simps [simp del]

text \<open>
  The outer loop
  \<^verbatim>\<open>for (let i = 0; i < 3; i++) { ...; newPops[i] = Math.max(0.1, pops[i] + dN * dt); }\<close>
\<close>

function species_loop ::
  "number list \<Rightarrow> GLVParams \<Rightarrow> nat \<Rightarrow> number list \<Rightarrow> error + number list" where
  "species_loop pops params i newPops =
     (if i < 3 then
        (case interaction_loop (A params) i pops 0 (Fin 0) of
           Inl e \<Rightarrow> Inl e
         | Inr interaction \<Rightarrow>
             (let dN = jmul (num_at pops i) (jadd (num_at (r params) i) interaction)
              in species_loop pops params (i + 1)
                   (array_set newPops i
                      (Math_max (Fin 0.1) (jadd (num_at pops i) (jmul dN (dt params)))))))
      else Inr newPops)"
  by pat_completeness auto
termination
  by (relation "measure (\<lambda>(pops, params, i, newPops). 3 - i)") auto

declare species_loop.simps [simp del]

text \<open>\<^verbatim>\<open>const newPops = [...pops]; ...; return newPops;\<close>\<close>

definition updatePopulations :: "number list \<Rightarrow> GLVParams \<Rightarrow> error + number list" where
  "updatePopulations pops params = species_loop pops params 0 pops"

text \<open>The parameters \<^verbatim>\<open>Home\<close> starts with, and its initial populations.\<close>

definition initial_params :: GLVParams where
  "initial_params =
     \<lparr> r = [Fin 0.5, Fin 0.3, Fin 0.4],
       A = [[Fin (- 0.1), Fin 0.5, Fin (- 0.2)],
            [Fin (- 0.5), Fin (- 0.1), Fin 0.0],
            [Fin (- 0.1), Fin (- 0.2), Fin (- 0.1)]],
       dt = Fin 0.05 \<rparr>"

definition initial_pops :: "number list" where
  "initial_pops = [Fin 1.0, Fin 1.0, Fin 1.0]"


text \<open>
  Repeated stepping, as the driver does it: each call's result is the next call's input.
\<close>

fun iterate_updatePopulations :: "nat \<Rightarrow> number list \<Rightarrow> GLVParams \<Rightarrow> error + number list" where
  "iterate_updatePopulations 0 pops params = Inr pops"
| "iterate_updatePopulations (Suc n) pops params =
     (case updatePopulations pops params of
        Inl e \<Rightarrow> Inl e
      | Inr next \<Rightarrow> iterate_updatePopulations n next params)"

subsection \<open>The same function on a store\<close>

text \<open>
  Arrays are objects: \<^verbatim>\<open>pops\<close> is a reference, \<^verbatim>\<open>[...pops]\<close> allocates a new array
  and \<^verbatim>\<open>newPops[i] = ...\<close> writes into the store. Here the store is the list of all
  arrays, an address is an index into it, and every read of \<^verbatim>\<open>pops\<close> goes to the
  store as it is at that moment, so a write through an alias would be seen.
\<close>

type_synonym addr = nat
type_synonym heap = "number list list"

definition heap_alloc :: "heap \<Rightarrow> number list \<Rightarrow> addr \<times> heap" where
  "heap_alloc h xs = (length h, h @ [xs])"

definition heap_set :: "heap \<Rightarrow> addr \<Rightarrow> nat \<Rightarrow> number \<Rightarrow> heap" where
  "heap_set h a i v = h[a := array_set (h ! a) i v]"

function species_loop_heap ::
  "heap \<Rightarrow> addr \<Rightarrow> GLVParams \<Rightarrow> nat \<Rightarrow> addr \<Rightarrow> error + addr \<times> heap" where
  "species_loop_heap h pops params i newPops =
     (if i < 3 then
        (case interaction_loop (A params) i (h ! pops) 0 (Fin 0) of
           Inl e \<Rightarrow> Inl e
         | Inr interaction \<Rightarrow>
             (let dN = jmul (num_at (h ! pops) i) (jadd (num_at (r params) i) interaction)
              in species_loop_heap
                   (heap_set h newPops i
                      (Math_max (Fin 0.1) (jadd (num_at (h ! pops) i) (jmul dN (dt params)))))
                   pops params (i + 1) newPops))
      else Inr (newPops, h))"
  by pat_completeness auto
termination
  by (relation "measure (\<lambda>(h, pops, params, i, newPops). 3 - i)") auto

declare species_loop_heap.simps [simp del]

definition updatePopulations_heap :: "heap \<Rightarrow> addr \<Rightarrow> GLVParams \<Rightarrow> error + addr \<times> heap" where
  "updatePopulations_heap h pops params =
     (case heap_alloc h (h ! pops) of
        (newPops, h') \<Rightarrow> species_loop_heap h' pops params 0 newPops)"

section \<open>The particle ensemble of \<^verbatim>\<open>Colony\<close>\<close>

text \<open>
  A particle is \<^verbatim>\<open>{ x, y, z, species }\<close>; the coordinate fields are named \<open>px\<close>,
  \<open>py\<close>, \<open>pz\<close> here.
\<close>

record particle =
  px :: number
  py :: number
  pz :: number
  species :: nat

text \<open>
  \<^verbatim>\<open>Math.random()\<close> is a parameter: \<open>random k\<close> is what the \<open>k\<close>-th call returns.
  Iteration \<open>i\<close> of the loop makes the calls \<open>3 i\<close>, \<open>3 i + 1\<close> and \<open>3 i + 2\<close>, for
  \<^verbatim>\<open>theta\<close>, \<^verbatim>\<open>phi\<close> and \<^verbatim>\<open>radius\<close> in that order.
\<close>

function particles_loop ::
  "(nat \<Rightarrow> number) \<Rightarrow> nat \<Rightarrow> nat \<Rightarrow> particle list \<Rightarrow> particle list" where
  "particles_loop random cnt i temp =
     (if i < cnt then
        (let theta = jmul (jmul (random (3 * i)) (Fin pi)) (Fin 2);
             phi = Math_acos (jsub (jmul (random (3 * i + 1)) (Fin 2)) (Fin 1));
             radius = jadd (Fin 10) (jmul (random (3 * i + 2)) (Fin 10))
         in particles_loop random cnt (i + 1)
              (temp @
               [\<lparr> px = jmul (jmul radius (Math_sin phi)) (Math_cos theta),
                   py = jmul (jmul radius (Math_sin phi)) (Math_sin theta),
                   pz = jmul radius (Math_cos phi),
                   species = i mod 3 \<rparr>]))
      else temp)"
  by pat_completeness auto
termination
  by (relation "measure (\<lambda>(random, cnt, i, temp). cnt - i)") auto

declare particles_loop.simps [simp del]

text \<open>
  The \<^verbatim>\<open>useMemo\<close> that builds the ensemble, for a given particle count; \<^verbatim>\<open>Colony\<close>
  fixes \<^verbatim>\<open>count = 3000\<close>.
\<close>

definition particles :: "(nat \<Rightarrow> number) \<Rightarrow> nat \<Rightarrow> particle list" where
  "particles random cnt = particles_loop random cnt 0 []"

definition count :: nat where
  "count = 3000"

section \<open>The per-particle frame update of \<^verbatim>\<open>Colony\<close>\<close>

text \<open>
  \<^verbatim>\<open>dummy\<close> is one shared \<^verbatim>\<open>THREE.Object3D\<close>. The frame callback sets its position
  and scale and never touches its rotation, so the matrix that \<^verbatim>\<open>updateMatrix\<close>
  composes is determined by these two fields; an instance's matrix is modelled as the
  \<^verbatim>\<open>Object3D\<close> it was composed from. The colour is the style string handed to
  \<^verbatim>\<open>THREE.Color\<close>, \<open>None\<close> where none is.
\<close>

record Object3D =
  position :: "number \<times> number \<times> number"
  scale :: "number \<times> number \<times> number"

record mesh_instance =
  matrix :: Object3D
  color :: "string option"

definition colors :: "string list" where
  "colors = [''#ff0055'', ''#00cc88'', ''#22ccff'']"

text \<open>
  The body of \<^verbatim>\<open>particles.forEach\<close> in the second source file (the specification's
  \<^verbatim>\<open>computeTransform\<close>): it takes \<^verbatim>\<open>dummy\<close> as it finds it and returns it as it
  leaves it, with what it stores for the instance.
\<close>

definition computeTransform ::
  "Object3D \<Rightarrow> particle \<Rightarrow> number list \<Rightarrow> number \<Rightarrow> Object3D \<times> mesh_instance" where
  "computeTransform dummy p populations time =
     (let scale_p = jmul (num_at populations (species p)) (Fin 0.4);
          dummy1 = dummy\<lparr> position :=
                     (jadd (px p) (jmul (Math_sin (jadd time (px p))) (Fin 0.5)),
                      jadd (py p) (jmul (Math_cos (jadd time (py p))) (Fin 0.5)),
                      pz p) \<rparr>;
          dummy2 = dummy1\<lparr> scale := (scale_p, scale_p, scale_p) \<rparr>
      in (dummy2,
          \<lparr> matrix = dummy2,
            color = (if species p < length colors then Some (colors ! species p) else None) \<rparr>))"

text \<open>
  The same body in \<^verbatim>\<open>src/app/page.tsx\<close>: the factor is 0.5 and the colour is chosen by
  three \<^verbatim>\<open>if\<close>s, none of which fires for a species other than 0, 1, 2.
\<close>

definition computeTransform_page ::
  "Object3D \<Rightarrow> particle \<Rightarrow> number list \<Rightarrow> number \<Rightarrow> Object3D \<times> mesh_instance" where
  "computeTransform_page dummy p populations time =
     (let scale_p = jmul (num_at populations (species p)) (Fin 0.5);
          hoverX = jadd (px p) (jmul (Math_sin (jadd time (px p))) (Fin 0.5));
          hoverY = jadd (py p) (jmul (Math_cos (jadd time (py p))) (Fin 0.5));
          dummy1 = dummy\<lparr> position := (hoverX, hoverY, pz p) \<rparr>;
          dummy2 = dummy1\<lparr> scale := (scale_p, scale_p, scale_p) \<rparr>;
          c0 = (if species p = 0 then Some ''#ff0055'' else None);
          c1 = (if species p = 1 then Some ''#00cc88'' else c0);
          c2 = (if species p = 2 then Some ''#22ccff'' else c1)
      in (dummy2, \<lparr> matrix = dummy2, color = c2 \<rparr>))"

section \<open>The state of \<^verbatim>\<open>Home\<close>\<close>

text \<open>
  A chart sample is \<^verbatim>\<open>{ name, A, B, C }\<close>; its three values are named \<open>valA\<close>,
  \<open>valB\<close>, \<open>valC\<close> here.
\<close>

record sample =
  name :: string
  valA :: number
  valB :: number
  valC :: number

text \<open>
  The three \<^verbatim>\<open>useState\<close> cells and the \<^verbatim>\<open>useRef\<close> holding the parameters.
\<close>

record home_state =
  pops :: "number list"
  history :: "sample list"
  explanation :: string
  params :: GLVParams

definition home_init :: home_state where
  "home_init =
     \<lparr> pops = initial_pops,
       history = [],
       explanation = ''Default balanced ecosystem.'',
       params = initial_params \<rparr>"

text \<open>
  \<^verbatim>\<open>xs.slice(-k)\<close>: the start index is \<open>length xs - k\<close>, or 0 when that is negative.
\<close>

definition slice_from_end :: "nat \<Rightarrow> 'a list \<Rightarrow> 'a list" where
  "slice_from_end k xs = drop (length xs - k) xs"

text \<open>\<^verbatim>\<open>{ name: '', A: next[0], B: next[1], C: next[2] }\<close>\<close>

definition sample_of :: "number list \<Rightarrow> sample" where
  "sample_of next =
     \<lparr> name = '''', valA = num_at next 0, valB = num_at next 1, valC = num_at next 2 \<rparr>"

text \<open>
  One firing of the \<^verbatim>\<open>setInterval\<close> callback: the new populations replace the old
  ones and their sample is appended to the history, of which the last 50 are kept. When
  \<^verbatim>\<open>updatePopulations\<close> throws, no state was set.
\<close>

definition interval_tick :: "home_state \<Rightarrow> error + home_state" where
  "interval_tick s =
     (case updatePopulations (pops s) (params s) of
        Inl e \<Rightarrow> Inl e
      | Inr next \<Rightarrow>
          (let newData = history s @ [sample_of next]
           in Inr (s\<lparr> history := slice_from_end 50 newData, pops := next \<rparr>)))"

fun run_ticks :: "nat \<Rightarrow> home_state \<Rightarrow> error + home_state" where
  "run_ticks 0 s = Inr s"
| "run_ticks (Suc n) s =
     (case interval_tick s of Inl e \<Rightarrow> Inl e | Inr s' \<Rightarrow> run_ticks n s')"

text \<open>The samples that \<open>n\<close> firings produce, oldest first.\<close>

fun samples :: "nat \<Rightarrow> number list \<Rightarrow> GLVParams \<Rightarrow> sample list" where
  "samples 0 v p = []"
| "samples (Suc n) v p =
     (case updatePopulations v p of
        Inl e \<Rightarrow> []
      | Inr next \<Rightarrow> sample_of next # samples n next p)"

text \<open>
  \<^verbatim>\<open>applyScenario\<close>: an \<^verbatim>\<open>if\<close> / \<^verbatim>\<open>else if\<close> chain over the tag with no final
  \<^verbatim>\<open>else\<close>. Nothing in it throws, so it always returns (\<open>Inr\<close>).
\<close>

definition applyScenario :: "string \<Rightarrow> home_state \<Rightarrow> error + home_state" where
  "applyScenario type s =
     (if type = ''balance'' then
        Inr (s\<lparr> params := (params s)\<lparr> r := [Fin 0.5, Fin 0.3, Fin 0.4] \<rparr>,
                explanation :=
                  ''Stable Equilibrium: Predator and Prey populations oscillate in harmony.'' \<rparr>)
      else if type = ''explosion'' then
        Inr (s\<lparr> params := (params s)\<lparr> r := [Fin 0.8, Fin 1.5, Fin 0.1] \<rparr>,
                explanation :=
                  ''Population Explosion: High growth rate leads to chaotic spikes.'' \<rparr>)
      else if type = ''extinction'' then
        Inr (s\<lparr> params := (params s)\<lparr> r := [Fin (- 0.2), Fin (- 0.1), Fin (- 0.1)] \<rparr>,
                explanation :=
                  ''Mass Extinction: Harsh conditions cause all populations to collapse.'' \<rparr>)
      else Inr s)"

text \<open>The tags the chain knows.\<close>

definition known_scenarios :: "string list" where
  "known_scenarios = [''balance'', ''explosion'', ''extinction'']"

section \<open>Well-formed inputs\<close>






text \<open>A number is within the tolerance \<open>1e-9\<close> of a real value.\<close>

definition within_tolerance :: "number \<Rightarrow> real \<Rightarrow> bool" where
  "within_tolerance x y = (case x of Fin a \<Rightarrow> \<bar>a - y\<bar> \<le> 1 / 10 ^ 9 | _ \<Rightarrow> False)"

subsection \<open>Collapse\<close>








subsection \<open>Example states\<close>

text \<open>A state whose history is full, and the state one firing of the interval later.\<close>

definition full_state :: home_state where
  "full_state = home_init\<lparr> history := replicate 50 (sample_of initial_pops) \<rparr>"

definition full_state_next :: home_state where
  "full_state_next =
     home_init\<lparr> history := replicate 49 (sample_of initial_pops)
                               @ [sample_of [Fin 1.035, Fin 0.985, Fin 1]],
                 pops := [Fin 1.035, Fin 0.985, Fin 1] \<rparr>"

section \<open>What one step computes\<close>





lemma interaction_loop_unroll:
  "interaction_loop Am i v 0 acc =
     (if i < length Am then
        Inr (jadd (jadd (jadd acc (jmul (num_at (Am ! i) 0) (num_at v 0)))
                     (jmul (num_at (Am ! i) 1) (num_at v 1)))
               (jmul (num_at (Am ! i) 2) (num_at v 2)))
      else Inl TypeError)"
  by (simp add: interaction_loop.simps numeral_2_eq_2)


text \<open>The call throws exactly when the matrix has fewer than three rows.\<close>

lemma updatePopulations_returns:
  assumes "3 \<le> length (A p)"
  shows "\<exists>out. updatePopulations v p = Inr out"
proof -
  from assms have "0 < length (A p)" "1 < length (A p)" "2 < length (A p)" by auto
  then show ?thesis
    by (simp add: updatePopulations_def species_loop.simps interaction_loop_unroll Let_def)
qed

lemma updatePopulations_throws:
  assumes "length (A p) < 3"
  shows "updatePopulations v p = Inl TypeError"
proof -
  from assms consider "length (A p) = 0" | "length (A p) = 1" | "length (A p) = 2" by linarith
  then show ?thesis
    by cases (simp_all add: updatePopulations_def species_loop.simps interaction_loop_unroll Let_def)
qed








lemma updatePopulations_initial:
  "updatePopulations initial_pops initial_params = Inr [Fin 1.035, Fin 0.985, Fin 1]"
  by (simp add: updatePopulations_def species_loop.simps interaction_loop_unroll
      initial_pops_def initial_params_def num_at_def array_set_def)

section \<open>The floor\<close>






section \<open>The known value\<close>

text \<open>
  Claim C2, as stated, fails: with the initial parameters and populations, the first
  component of one step is not within \<open>1e-9\<close> of 1.010.
\<close>

theorem known_value_counterexample:
  "updatePopulations initial_pops initial_params = Inr [Fin 1.035, Fin 0.985, Fin 1]
   \<and> \<not> within_tolerance (num_at [Fin 1.035, Fin 0.985, Fin 1] 0) 1.010"
  by (simp add: updatePopulations_initial num_at_def within_tolerance_def)

text \<open>
  Claim C2, amended. With growth rates [0.5, 0.3, 0.4], the initial interaction matrix,
  time step 0.05 and populations [1.0, 1.0, 1.0], one step returns for species 0 the value
  of 1.0 + 1.0 * (0.5 + (-0.1 * 1 + 0.5 * 1 - 0.2 * 1)) * 0.05, which is 1.035 (the bracket
  is 0.7, not 0.2); the whole result is [1.035, 0.985, 1.0].
\<close>

theorem known_value:
  "updatePopulations initial_pops initial_params =
     Inr [Fin (1.0 + 1.0 * (0.5 + (- 0.1 * 1 + 0.5 * 1 - 0.2 * 1)) * 0.05), Fin 0.985, Fin 1.0]
   \<and> (1.0 + 1.0 * (0.5 + (- 0.1 * 1 + 0.5 * 1 - 0.2 * 1)) * 0.05 :: real) = 1.035
   \<and> (case updatePopulations initial_pops initial_params of
         Inl e \<Rightarrow> False
       | Inr out \<Rightarrow> within_tolerance (num_at out 0) 1.035)"
  by (simp add: updatePopulations_initial num_at_def within_tolerance_def)

section \<open>Purity of \<^verbatim>\<open>updatePopulations\<close>\<close>

lemma heap_set_fresh:
  "heap_set (h @ [np]) (length h) i x = h @ [array_set np i x]"
  by (simp add: heap_set_def)

lemma species_loop_heap_fresh:
  assumes "a < length h"
  shows "species_loop_heap (h @ [np]) a p i (length h) =
         map_sum id (\<lambda>out. (length h, h @ [out])) (species_loop (h ! a) p i np)"
proof (induction "3 - i" arbitrary: i np)
  case 0
  then show ?case
    by (simp add: species_loop_heap.simps [of _ _ _ i] species_loop.simps [of _ _ i])
next
  case (Suc k)
  then have i: "i < 3" and k: "k = 3 - (i + 1)" by simp_all
  show ?case
    using assms i Suc.hyps(1) [OF k]
    by (simp add: species_loop_heap.simps [of _ _ _ i] species_loop.simps [of _ _ i]
        heap_set_fresh nth_append Let_def split: sum.split)
qed

lemma updatePopulations_heap_eq:
  assumes "a < length h"
  shows "updatePopulations_heap h a p =
         map_sum id (\<lambda>out. (length h, h @ [out])) (updatePopulations (h ! a) p)"
  using species_loop_heap_fresh [OF assms, of "h ! a" p 0]
  by (simp add: updatePopulations_heap_def heap_alloc_def updatePopulations_def)

text \<open>
  Claim C3. \<^verbatim>\<open>updatePopulations\<close> is deterministic and does not mutate its input. Run
  on a store \<open>h\<close> with its argument at address \<open>a\<close>, it either throws, exactly when the
  function of the array's content and the parameters does, or returns a new address \<open>b\<close>
  and a store \<open>h'\<close> such that: the array at \<open>b\<close> is that function of the content of the
  input and of the parameters, and of nothing else; \<open>b\<close> is fresh; every array of \<open>h\<close>,
  the input among them, is in \<open>h'\<close> as it was; and a second call with the same argument
  returns an array with the same content and again leaves the input as it was.
\<close>

theorem pure_and_non_mutating:
  assumes "a < length h"
  shows "case updatePopulations_heap h a p of
           Inl e \<Rightarrow> updatePopulations (h ! a) p = Inl e
         | Inr (b, h') \<Rightarrow>
             updatePopulations (h ! a) p = Inr (h' ! b)
             \<and> h' ! a = h ! a \<and> b = length h \<and> b \<noteq> a \<and> take (length h) h' = h
             \<and> (case updatePopulations_heap h' a p of
                   Inl e \<Rightarrow> False
                 | Inr (b', h'') \<Rightarrow> h'' ! b' = h' ! b \<and> h'' ! a = h ! a)"
  using assms
  by (cases "updatePopulations (h ! a) p")
     (simp_all add: updatePopulations_heap_eq nth_append)

theorem pure_and_non_mutating_witness:
  "0 < length [initial_pops]
   \<and> updatePopulations_heap [initial_pops] 0 initial_params =
       Inr (1, [initial_pops, [Fin 1.035, Fin 0.985, Fin 1]])
   \<and> (case updatePopulations_heap [initial_pops] 0 initial_params of
         Inl e \<Rightarrow> updatePopulations ([initial_pops] ! 0) initial_params = Inl e
       | Inr (b, h') \<Rightarrow>
           updatePopulations ([initial_pops] ! 0) initial_params = Inr (h' ! b)
           \<and> h' ! 0 = [initial_pops] ! 0 \<and> b = length [initial_pops] \<and> b \<noteq> 0
           \<and> take (length [initial_pops]) h' = [initial_pops]
           \<and> (case updatePopulations_heap h' 0 initial_params of
                 Inl e \<Rightarrow> False
               | Inr (b', h'') \<Rightarrow> h'' ! b' = h' ! b \<and> h'' ! 0 = [initial_pops] ! 0))"
proof -
  have l: "0 < length [initial_pops]" by simp
  have "updatePopulations_heap [initial_pops] 0 initial_params =
          Inr (1, [initial_pops, [Fin 1.035, Fin 0.985, Fin 1]])"
    by (simp add: updatePopulations_heap_eq updatePopulations_initial)
  with l pure_and_non_mutating [OF l, of initial_params] show ?thesis by blast
qed

section \<open>Scenarios\<close>

lemma known_scenarios_cases:
  assumes "tag \<in> set known_scenarios"
  obtains "tag = ''balance''" | "tag = ''explosion''" | "tag = ''extinction''"
  using assms by (auto simp: known_scenarios_def)

lemma applyScenario_balance:
  "applyScenario ''balance'' s =
     Inr (s\<lparr> params := (params s)\<lparr> r := [Fin 0.5, Fin 0.3, Fin 0.4] \<rparr>,
             explanation :=
               ''Stable Equilibrium: Predator and Prey populations oscillate in harmony.'' \<rparr>)"
  by (simp add: applyScenario_def)

lemma applyScenario_explosion:
  "applyScenario ''explosion'' s =
     Inr (s\<lparr> params := (params s)\<lparr> r := [Fin 0.8, Fin 1.5, Fin 0.1] \<rparr>,
             explanation :=
               ''Population Explosion: High growth rate leads to chaotic spikes.'' \<rparr>)"
  by (simp add: applyScenario_def)

lemma applyScenario_extinction:
  "applyScenario ''extinction'' s =
     Inr (s\<lparr> params := (params s)\<lparr> r := [Fin (- 0.2), Fin (- 0.1), Fin (- 0.1)] \<rparr>,
             explanation :=
               ''Mass Extinction: Harsh conditions cause all populations to collapse.'' \<rparr>)"
  by (simp add: applyScenario_def)

text \<open>
  Claim C4, as stated, fails: for a tag that is not a known preset, \<^verbatim>\<open>applyScenario\<close>
  signals no error. It returns normally, having changed nothing.
\<close>

theorem unknown_scenario_counterexample:
  "''unknown'' \<notin> set known_scenarios
   \<and> applyScenario ''unknown'' home_init = Inr home_init
   \<and> \<not> isl (applyScenario ''unknown'' home_init)"
  by (simp add: applyScenario_def known_scenarios_def)

text \<open>
  Claim C4, amended. For every tag that is not one of the known scenario presets,
  \<^verbatim>\<open>applyScenario\<close> returns normally, without signalling an error, and leaves the whole
  state, the growth rates in particular, unchanged.
\<close>

theorem unknown_scenario_no_op:
  assumes "tag \<notin> set known_scenarios"
  shows "applyScenario tag s = Inr s"
  using assms by (simp add: applyScenario_def known_scenarios_def)

theorem unknown_scenario_no_op_witness:
  "''collapse'' \<notin> set known_scenarios \<and> applyScenario ''collapse'' home_init = Inr home_init"
  using unknown_scenario_no_op [of "''collapse''" home_init]
  by (simp add: known_scenarios_def)

text \<open>
  Claim C5. For every known scenario tag, \<^verbatim>\<open>applyScenario\<close> returns a state that
  differs from the one before in the growth rates and the explanation text only: the
  interaction matrix and the time step are unchanged, and the current populations (and
  the history) are not reset.
\<close>

theorem scenario_isolation:
  assumes "tag \<in> set known_scenarios"
  shows "case applyScenario tag s of
           Inl e \<Rightarrow> False
         | Inr s' \<Rightarrow>
             s' = s\<lparr> params := (params s)\<lparr> r := r (params s') \<rparr>,
                     explanation := explanation s' \<rparr>
             \<and> A (params s') = A (params s) \<and> dt (params s') = dt (params s)
             \<and> pops s' = pops s \<and> history s' = history s"
  using assms
proof (cases rule: known_scenarios_cases)
  case 1
  then show ?thesis by (simp add: applyScenario_balance)
next
  case 2
  then show ?thesis by (simp add: applyScenario_explosion)
next
  case 3
  then show ?thesis by (simp add: applyScenario_extinction)
qed

theorem scenario_isolation_witness:
  "''extinction'' \<in> set known_scenarios
   \<and> (case applyScenario ''extinction'' home_init of
         Inl e \<Rightarrow> False
       | Inr s' \<Rightarrow>
           s' = home_init\<lparr> params := (params home_init)\<lparr> r := r (params s') \<rparr>,
                           explanation := explanation s' \<rparr>
           \<and> A (params s') = A (params home_init) \<and> dt (params s') = dt (params home_init)
           \<and> pops s' = pops home_init \<and> history s' = history home_init)
   \<and> r (params (projr (applyScenario ''extinction'' home_init))) \<noteq> r (params home_init)"
proof -
  have k: "''extinction'' \<in> set known_scenarios"
    by (simp add: known_scenarios_def)
  have "r (params (projr (applyScenario ''extinction'' home_init))) \<noteq> r (params home_init)"
    by (simp add: applyScenario_extinction home_init_def initial_params_def)
  with k scenario_isolation [OF k, of home_init] show ?thesis by blast
qed

section \<open>The ensemble\<close>

lemma particles_loop_species:
  "i \<le> n \<Longrightarrow> map species (particles_loop random n i temp) =
     map species temp @ map (\<lambda>k. k mod 3) [i..<n]"
proof (induction "n - i" arbitrary: i temp)
  case 0
  then show ?case by (simp add: particles_loop.simps [of _ _ i])
next
  case (Suc k)
  then have i: "i < n" and k: "k = n - (i + 1)" and le: "i + 1 \<le> n" by simp_all
  show ?case
    using i Suc.hyps(1) [OF k le]
    by (simp add: particles_loop.simps [of _ _ i] Let_def upt_conv_Cons)
qed

lemma particles_species: "map species (particles random n) = map (\<lambda>k. k mod 3) [0..<n]"
  by (simp add: particles_def particles_loop_species)

lemma length_particles: "length (particles random n) = n"
  using arg_cong [OF particles_species, of length random n] by simp

lemma filter_species:
  "length (filter (\<lambda>q. species q = s) ps) = length (filter (\<lambda>k. k = s) (map species ps))"
  by (induction ps) simp_all

lemma count_mod_3:
  "s < 3 \<Longrightarrow> length (filter (\<lambda>k. k = s) (map (\<lambda>k. k mod 3) [0..<3 * m])) = m"
proof (induction m)
  case 0
  then show ?case by simp
next
  case (Suc m)
  have "3 * Suc m = Suc (Suc (Suc (3 * m)))" by simp
  then have "[0..<3 * Suc m] = [0..<3 * m] @ [3 * m, 3 * m + 1, 3 * m + 2]"
    by (simp only: upt_Suc) simp
  moreover have "(3 * m + 1) mod 3 = 1" "(3 * m + 2) mod 3 = 2" "(3 * m) mod 3 = 0"
    by presburger+
  ultimately show ?case using Suc by auto
qed

text \<open>
  Claim C7. The ensemble built for a particle count \<open>n\<close> has \<open>n\<close> particles, the
  \<open>i\<close>-th of which has species \<open>i mod 3\<close>, whatever \<^verbatim>\<open>Math.random\<close> returns; so for
  every \<open>n\<close> divisible by 3, exactly \<open>n div 3\<close> particles have each of the species 0, 1
  and 2.
\<close>

theorem ensemble_balance:
  assumes "3 dvd n"
  shows "length (particles random n) = n
       \<and> (\<forall>i<n. species (particles random n ! i) = i mod 3)
       \<and> (\<forall>s<3. length (filter (\<lambda>q. species q = s) (particles random n)) = n div 3)"
proof (intro conjI allI impI)
  show "length (particles random n) = n" by (rule length_particles)
next
  fix i assume "i < n"
  then have "species (particles random n ! i) = map species (particles random n) ! i"
    by (simp add: length_particles)
  also have "\<dots> = i mod 3"
    using \<open>i < n\<close> by (simp add: particles_species)
  finally show "species (particles random n ! i) = i mod 3" .
next
  fix s :: nat assume s: "s < 3"
  from assms obtain m where n: "n = 3 * m" by (auto simp: dvd_def)
  show "length (filter (\<lambda>q. species q = s) (particles random n)) = n div 3"
    using count_mod_3 [OF s, of m] by (simp add: filter_species particles_species n)
qed

theorem ensemble_balance_witness:
  "3 dvd count \<and> length (particles (\<lambda>k. Fin 0) count) = 3000
   \<and> length (filter (\<lambda>q. species q = 0) (particles (\<lambda>k. Fin 0) count)) = 1000
   \<and> length (filter (\<lambda>q. species q = 1) (particles (\<lambda>k. Fin 0) count)) = 1000
   \<and> length (filter (\<lambda>q. species q = 2) (particles (\<lambda>k. Fin 0) count)) = 1000"
proof -
  have d: "3 dvd count" by (simp add: count_def)
  from ensemble_balance [OF d, of "\<lambda>k. Fin 0"] d show ?thesis
    by (simp add: count_def)
qed

section \<open>The per-particle transform\<close>

text \<open>
  Claim C8. What the frame callback stores for a particle is a function of the particle,
  the population vector and the elapsed time alone: it does not depend on what
  \<^verbatim>\<open>dummy\<close> held before. The position is
  \<open>(x + sin (time + x) * 0.5, y + cos (time + y) * 0.5, z)\<close>; the scale is the population
  of the particle's species times 0.4 in each direction, and depends on neither time nor
  position; the colour is the entry of the three-entry table for the species and varies
  with neither the populations nor the time. The callback of \<^verbatim>\<open>src/app/page.tsx\<close>
  computes the same position and colour, and the same scale with the factor 0.5.
\<close>

theorem transform_pure:
  "computeTransform dummy p v t =
     (\<lparr> position = (jadd (px p) (jmul (Math_sin (jadd t (px p))) (Fin 0.5)),
                     jadd (py p) (jmul (Math_cos (jadd t (py p))) (Fin 0.5)),
                     pz p),
         scale = (jmul (num_at v (species p)) (Fin 0.4),
                  jmul (num_at v (species p)) (Fin 0.4),
                  jmul (num_at v (species p)) (Fin 0.4)) \<rparr>,
      \<lparr> matrix =
          \<lparr> position = (jadd (px p) (jmul (Math_sin (jadd t (px p))) (Fin 0.5)),
                        jadd (py p) (jmul (Math_cos (jadd t (py p))) (Fin 0.5)),
                        pz p),
            scale = (jmul (num_at v (species p)) (Fin 0.4),
                     jmul (num_at v (species p)) (Fin 0.4),
                     jmul (num_at v (species p)) (Fin 0.4)) \<rparr>,
        color = (if species p < 3 then Some (colors ! species p) else None) \<rparr>)
   \<and> computeTransform dummy' p v t = computeTransform dummy p v t
   \<and> color (snd (computeTransform dummy p v' t')) = color (snd (computeTransform dummy p v t))
   \<and> scale (matrix (snd (computeTransform dummy p v t'))) =
       scale (matrix (snd (computeTransform dummy p v t)))
   \<and> position (matrix (snd (computeTransform dummy p v' t))) =
       position (matrix (snd (computeTransform dummy p v t)))
   \<and> position (matrix (snd (computeTransform_page dummy p v t))) =
       position (matrix (snd (computeTransform dummy p v t)))
   \<and> color (snd (computeTransform_page dummy p v t)) = color (snd (computeTransform dummy p v t))
   \<and> scale (matrix (snd (computeTransform_page dummy p v t))) =
       (jmul (num_at v (species p)) (Fin 0.5),
        jmul (num_at v (species p)) (Fin 0.5),
        jmul (num_at v (species p)) (Fin 0.5))
   \<and> computeTransform_page dummy' p v t = computeTransform_page dummy p v t"
  by (cases dummy; cases dummy')
     (simp add: computeTransform_def computeTransform_page_def Let_def colors_def
        numeral_3_eq_3 less_Suc_eq numeral_2_eq_2)

section \<open>The history window\<close>

lemma length_slice_from_end: "length (slice_from_end k xs) \<le> k"
  by (simp add: slice_from_end_def)

lemma slice_from_end_id: "length xs \<le> k \<Longrightarrow> slice_from_end k xs = xs"
  by (simp add: slice_from_end_def)

lemma slice_from_end_append:
  "slice_from_end k (slice_from_end k xs @ ys) = slice_from_end k (xs @ ys)"
proof (cases "length xs \<le> k")
  case True
  then show ?thesis by (simp add: slice_from_end_id)
next
  case False
  then have k: "k < length xs" by simp
  then have e: "length xs - k + (length xs + length ys - (k + (length xs - k))) =
      length xs + length ys - k"
    by simp
  show ?thesis
    by (simp add: slice_from_end_def add.commute e)
qed

lemma interval_tick_Inr:
  assumes "interval_tick s = Inr s'"
  obtains nxt where "updatePopulations (pops s) (params s) = Inr nxt"
    and "s' = s\<lparr> history := slice_from_end 50 (history s @ [sample_of nxt]), pops := nxt \<rparr>"
  using assms by (auto simp: interval_tick_def Let_def split: sum.splits)

lemma run_ticks_history:
  "run_ticks n s = Inr s' \<Longrightarrow>
     slice_from_end 50 (history s') =
       slice_from_end 50 (history s @ samples n (pops s) (params s))
     \<and> length (samples n (pops s) (params s)) = n
     \<and> (0 < n \<longrightarrow> length (history s') \<le> 50)
     \<and> params s' = params s \<and> explanation s' = explanation s
     \<and> iterate_updatePopulations n (pops s) (params s) = Inr (pops s')"
proof (induction n arbitrary: s)
  case 0
  then show ?case by simp
next
  case (Suc n)
  from Suc.prems obtain s1 where t: "interval_tick s = Inr s1" and r: "run_ticks n s1 = Inr s'"
    by (auto split: sum.splits)
  from t obtain nxt where u: "updatePopulations (pops s) (params s) = Inr nxt"
    and s1: "s1 = s\<lparr> history := slice_from_end 50 (history s @ [sample_of nxt]), pops := nxt \<rparr>"
    by (rule interval_tick_Inr)
  note IH = Suc.IH [OF r]
  have l: "length (history s') \<le> 50"
  proof (cases n)
    case 0
    with r have "s' = s1" by simp
    with s1 show ?thesis by (simp add: length_slice_from_end)
  next
    case (Suc m)
    with IH show ?thesis by simp
  qed
  have "slice_from_end 50 (history s') =
          slice_from_end 50 (slice_from_end 50 (history s @ [sample_of nxt]) @ samples n nxt (params s))"
    using IH s1 by simp
  also have "\<dots> = slice_from_end 50 (history s @ samples (Suc n) (pops s) (params s))"
    by (simp add: slice_from_end_append u)
  finally show ?case using IH s1 u l by simp
qed

lemma run_ticks_returns:
  "3 \<le> length (A (params s)) \<Longrightarrow> \<exists>s'. run_ticks n s = Inr s'"
proof (induction n arbitrary: s)
  case 0
  then show ?case by simp
next
  case (Suc n)
  from updatePopulations_returns [OF Suc.prems, of "pops s"] obtain nxt where
    u: "updatePopulations (pops s) (params s) = Inr nxt" ..
  then have t: "interval_tick s =
      Inr (s\<lparr> history := slice_from_end 50 (history s @ [sample_of nxt]), pops := nxt \<rparr>)"
    by (simp add: interval_tick_def)
  from Suc.IH [of "s\<lparr> history := slice_from_end 50 (history s @ [sample_of nxt]), pops := nxt \<rparr>"]
    Suc.prems t
  show ?case by simp
qed

text \<open>
  Claim C9. Whenever the interaction matrix has its three rows, every firing of the
  sampling interval returns, and after \<open>n > 0\<close> firings the history holds at most 50
  entries: exactly the last 50 (or all, if fewer) of the history before followed by the
  \<open>n\<close> samples produced, in order. It is a sliding window over the most recent samples;
  older ones are gone.
\<close>

theorem history_window:
  assumes "0 < n" and "3 \<le> length (A (params s))"
  shows "\<exists>s'. run_ticks n s = Inr s'
           \<and> length (history s') \<le> 50
           \<and> history s' = slice_from_end 50 (history s @ samples n (pops s) (params s))
           \<and> length (samples n (pops s) (params s)) = n"
proof -
  from run_ticks_returns [OF assms(2)] obtain s' where r: "run_ticks n s = Inr s'" ..
  from run_ticks_history [OF r] assms(1)
  have l: "length (history s') \<le> 50"
    and e: "slice_from_end 50 (history s') =
       slice_from_end 50 (history s @ samples n (pops s) (params s))"
    and n: "length (samples n (pops s) (params s)) = n"
    by simp_all
  from e slice_from_end_id [OF l] have
    "history s' = slice_from_end 50 (history s @ samples n (pops s) (params s))" by simp
  with r l n show ?thesis by simp
qed

lemma interval_tick_full: "interval_tick full_state = Inr full_state_next"
proof -
  have "replicate 50 (sample_of initial_pops) =
          sample_of initial_pops # replicate 49 (sample_of initial_pops)"
    by (simp add: replicate_Suc [symmetric] del: replicate_Suc)
  then show ?thesis
    by (simp add: interval_tick_def full_state_def full_state_next_def home_init_def
        updatePopulations_initial slice_from_end_def)
qed

theorem history_window_witness:
  "(0::nat) < 1 \<and> 3 \<le> length (A (params full_state))
   \<and> run_ticks 1 full_state = Inr full_state_next
   \<and> length (history full_state) = 50
   \<and> length (history full_state_next) \<le> 50
   \<and> history full_state_next =
       slice_from_end 50 (history full_state @ samples 1 (pops full_state) (params full_state))
   \<and> length (samples 1 (pops full_state) (params full_state)) = 1"
proof -
  have n: "(0::nat) < 1" by simp
  have a: "3 \<le> length (A (params full_state))"
    by (simp add: full_state_def home_init_def initial_params_def)
  have t: "run_ticks 1 full_state = Inr full_state_next"
    by (simp add: interval_tick_full)
  have l: "length (history full_state) = 50"
    by (simp add: full_state_def)
  from history_window [OF n a] t n a l show ?thesis by auto
qed

section \<open>Collapse to the floor\<close>



















end
